theory Spec2Isabelle
  imports Main "HOL-Library.AList" "HOL-Library.Sublist"
begin

section \<open>JavaScript values used by the services\<close>

text \<open>
  Strings are lists of characters. What \<open>response.json()\<close> resolves to is a JSON value;
  numbers are integers (fractional numbers are not modelled). An object is the list of its properties in insertion order.
\<close>

datatype json =
    JNull
  | JBool bool
  | JNum int
  | JStr string
  | JArr "json list"
  | JObj "(string \<times> json) list"

text \<open>Everything thrown in the services is an instance of \<open>Error\<close>; the constructor
  records which one, the argument is its \<open>message\<close>.\<close>

datatype error = Error string | TypeError string | SyntaxError string

fun message :: "error \<Rightarrow> string" where
  "message (Error m) = m"
| "message (TypeError m) = m"
| "message (SyntaxError m) = m"

text \<open>Decimal rendering of a number inside a template literal.\<close>

fun string_of_nat :: "nat \<Rightarrow> string" where
  "string_of_nat n =
     (if n < 10 then [''0123456789'' ! n]
      else string_of_nat (n div 10) @ [''0123456789'' ! (n mod 10)])"

declare string_of_nat.simps [simp del]

definition string_of_int :: "int \<Rightarrow> string" where
  "string_of_int i = (if i < 0 then CHR ''-'' # string_of_nat (nat (- i)) else string_of_nat (nat i))"

text \<open>JavaScript truthiness (\<open>!!v\<close>, \<open>v || d\<close>) of a JSON value.\<close>

fun truthy :: "json \<Rightarrow> bool" where
  "truthy JNull = False"
| "truthy (JBool b) = b"
| "truthy (JNum n) = (n \<noteq> 0)"
| "truthy (JStr s) = (s \<noteq> [])"
| "truthy (JArr _) = True"
| "truthy (JObj _) = True"

text \<open>\<open>String(v)\<close>, which \<open>new Error(v)\<close> applies to its argument. An array joins its
  elements with commas, \<open>null\<close> elements rendering as the empty string.\<close>

fun join_commas :: "string list \<Rightarrow> string" where
  "join_commas [] = []"
| "join_commas [s] = s"
| "join_commas (s # t # ss) = s @ '','' @ join_commas (t # ss)"

fun js_toString :: "json \<Rightarrow> string" where
  "js_toString JNull = ''null''"
| "js_toString (JBool b) = (if b then ''true'' else ''false'')"
| "js_toString (JNum n) = string_of_int n"
| "js_toString (JStr s) = s"
| "js_toString (JArr xs) =
     join_commas (map (\<lambda>x. if x = JNull then [] else js_toString x) xs)"
| "js_toString (JObj _) = ''[object Object]''"

text \<open>A nullable string field (\<open>string | null\<close>) is held when it is truthy: neither
  \<open>null\<close> nor the empty string.\<close>

definition held :: "string option \<Rightarrow> bool" where
  "held t = (case t of None \<Rightarrow> False | Some s \<Rightarrow> s \<noteq> [])"

text \<open>\<open>String.prototype.includes\<close>.\<close>

definition str_includes :: "string \<Rightarrow> string \<Rightarrow> bool" where
  "str_includes s sub = sublist sub s"

text \<open>An object of string properties (\<open>Record<string, string>\<close>) is an association list
  in insertion order; the spread \<open>{...a, ...b}\<close> copies \<open>a\<close> and then assigns every
  property of \<open>b\<close>, so a key of \<open>b\<close> overrides the same key of \<open>a\<close>.\<close>

type_synonym headers = "(string \<times> string) list"

definition spread :: "headers \<Rightarrow> headers \<Rightarrow> headers" where
  "spread a b = foldl (\<lambda>acc (k, v). AList.update k v acc) a b"

section \<open>Requests, responses and the world\<close>

datatype req_body =
    JsonText json
  | FormData "(string \<times> string) list"

record http_request =
  url :: string
  http_method :: "string option"
  req_headers :: headers
  req_body :: "req_body option"

text \<open>\<open>RequestInit\<close>, as far as the services fill it in.\<close>

record RequestInit =
  opt_method :: "string option"
  opt_headers :: headers
  opt_body :: "req_body option"

definition no_options :: RequestInit where
  "no_options = \<lparr>opt_method = None, opt_headers = [], opt_body = None\<rparr>"

text \<open>The body of a response: \<open>response.json()\<close> either rejects with a \<open>SyntaxError\<close>
  or resolves to a JSON value.\<close>

datatype body = Invalid string | Parsed json

text \<open>\<open>fetch\<close> either rejects (a \<open>TypeError\<close>: DNS, connection, CORS) or resolves to a
  response with a status and a body.\<close>

datatype fetch_result = NetworkError string | Response nat body

record TokenResponse =
  access_token :: string
  refresh_token :: string
  token_type :: string

text \<open>The two token endpoints answer, when \<open>response.ok\<close>, with a body the source reads
  at the declared type \<open>TokenResponse\<close>.\<close>

datatype auth_fetch_result =
    AuthNetworkError string
  | AuthRejected body
  | AuthGranted "string + TokenResponse"

text \<open>What has been observed of a run: every request handed to \<open>fetch\<close> by the API
  service (\<open>Fetch\<close>) and by the auth service (\<open>AuthFetch\<close>), every entry into
  \<open>refreshAccessToken\<close>, every timer awaited. Console output is not recorded.\<close>

datatype event = Fetch http_request | AuthFetch http_request | RefreshInvoked | Timeout nat

text \<open>Modelled from the spec: an entry of the response cache (the cache module is not
  available), with the fields of the spec's \<open>CacheEntry\<close>:
  \<open>{key, value, fetchedAt, ttl, inflightRefresh}\<close>.\<close>

record CacheEntry =
  entry_key :: string
  entry_value :: json
  fetchedAt :: int
  ttl :: int
  inflightRefresh :: bool

text \<open>The process-wide state: the two fields of \<open>AuthService\<close>, \<open>localStorage\<close>, the
  cache table and the observations so far.\<close>

record world =
  accessToken :: "string option"
  refreshToken :: "string option"
  localStorage :: "string \<rightharpoonup> string"
  cache :: "string \<rightharpoonup> CacheEntry"
  trace :: "event list"

text \<open>The remote host: what it answers to a request, given everything observed before.\<close>

record network =
  api_fetch :: "event list \<Rightarrow> http_request \<Rightarrow> fetch_result"
  auth_fetch :: "event list \<Rightarrow> http_request \<Rightarrow> auth_fetch_result"

definition API_BASE_URL :: string where
  "API_BASE_URL = ''https://reel-wheel-api-x92jj.ondigitalocean.app''"

definition response_ok :: "nat \<Rightarrow> bool" where
  "response_ok st = (200 \<le> st \<and> st \<le> 299)"

section \<open>AuthService\<close>

definition loadTokensFromStorage :: "world \<Rightarrow> world" where
  "loadTokensFromStorage w =
     w\<lparr>accessToken := localStorage w ''access_token'',
       refreshToken := localStorage w ''refresh_token''\<rparr>"

definition saveTokensToStorage :: "TokenResponse \<Rightarrow> world \<Rightarrow> world" where
  "saveTokensToStorage tokens w =
     w\<lparr>accessToken := Some (access_token tokens),
       refreshToken := Some (refresh_token tokens),
       localStorage := (localStorage w)(''access_token'' \<mapsto> access_token tokens,
                                        ''refresh_token'' \<mapsto> refresh_token tokens)\<rparr>"

definition clearTokensFromStorage :: "world \<Rightarrow> world" where
  "clearTokensFromStorage w =
     w\<lparr>accessToken := None,
       refreshToken := None,
       localStorage := (localStorage w)(''access_token'' := None, ''refresh_token'' := None)\<rparr>"

text \<open>The constructor: a fresh service over the given storage, hydrated at once.\<close>

definition AuthService_new :: "(string \<rightharpoonup> string) \<Rightarrow> world" where
  "AuthService_new storage =
     loadTokensFromStorage
       \<lparr>accessToken = None, refreshToken = None, localStorage = storage,
        cache = Map.empty, trace = []\<rparr>"

text \<open>\<open>error.detail || fallback\<close> as the argument of \<open>new Error\<close>: reading a property
  of \<open>null\<close> throws, a missing property is \<open>undefined\<close>.\<close>

definition null_property_message :: string where
  "null_property_message = ''Cannot read properties of null (reading 'detail')''"

fun detail_error :: "json \<Rightarrow> string \<Rightarrow> error" where
  "detail_error JNull fallback = TypeError null_property_message"
| "detail_error (JObj props) fallback =
     (case map_of props ''detail'' of
        None \<Rightarrow> Error fallback
      | Some v \<Rightarrow> if truthy v then Error (js_toString v) else Error fallback)"
| "detail_error _ fallback = Error fallback"

definition auth_request :: "network \<Rightarrow> http_request \<Rightarrow> world \<Rightarrow> auth_fetch_result \<times> world" where
  "auth_request net req w =
     (auth_fetch net (trace w) req, w\<lparr>trace := trace w @ [AuthFetch req]\<rparr>)"

record LoginCredentials =
  username :: string
  password :: string

definition login :: "network \<Rightarrow> LoginCredentials \<Rightarrow> world \<Rightarrow> (error + TokenResponse) \<times> world" where
  "login net credentials w =
     (let formData = [(''username'', username credentials),
                      (''password'', password credentials),
                      (''grant_type'', ''password'')];
          (r, w1) = auth_request net
                      \<lparr>url = API_BASE_URL @ ''/v1/auth/login'', http_method = Some ''POST'',
                       req_headers = [], req_body = Some (FormData formData)\<rparr> w
      in case r of
           AuthNetworkError m \<Rightarrow> (Inl (TypeError m), w1)
         | AuthRejected (Invalid m) \<Rightarrow> (Inl (SyntaxError m), w1)
         | AuthRejected (Parsed j) \<Rightarrow> (Inl (detail_error j ''Login failed''), w1)
         | AuthGranted (Inl m) \<Rightarrow> (Inl (SyntaxError m), w1)
         | AuthGranted (Inr tokens) \<Rightarrow> (Inr tokens, saveTokensToStorage tokens w1))"

definition refresh_request :: "string \<Rightarrow> http_request" where
  "refresh_request rt =
     \<lparr>url = API_BASE_URL @ ''/v1/auth/refresh'', http_method = Some ''POST'',
      req_headers = [(''Content-Type'', ''application/json'')],
      req_body = Some (JsonText (JObj [(''refresh_token'', JStr rt)]))\<rparr>"

text \<open>The guard throws before the \<open>try\<close> block is entered; everything thrown inside it
  passes through the \<open>catch\<close> block, which clears the tokens and throws again.\<close>

definition refreshAccessToken :: "network \<Rightarrow> world \<Rightarrow> (error + TokenResponse) \<times> world" where
  "refreshAccessToken net w0 =
     (let w = w0\<lparr>trace := trace w0 @ [RefreshInvoked]\<rparr>
      in if \<not> held (refreshToken w) then (Inl (Error ''No refresh token available''), w)
         else
           let (r, w1) = auth_request net (refresh_request (the (refreshToken w))) w
           in case r of
                AuthNetworkError m \<Rightarrow> (Inl (TypeError m), clearTokensFromStorage w1)
              | AuthRejected (Invalid m) \<Rightarrow> (Inl (SyntaxError m), clearTokensFromStorage w1)
              | AuthRejected (Parsed j) \<Rightarrow>
                  (Inl (detail_error j ''Token refresh failed''), clearTokensFromStorage w1)
              | AuthGranted (Inl m) \<Rightarrow> (Inl (SyntaxError m), clearTokensFromStorage w1)
              | AuthGranted (Inr tokens) \<Rightarrow> (Inr tokens, saveTokensToStorage tokens w1))"

definition logout :: "world \<Rightarrow> world" where
  "logout w = clearTokensFromStorage w"

definition getAccessToken :: "world \<Rightarrow> string option" where
  "getAccessToken w = accessToken w"

definition isAuthenticated :: "world \<Rightarrow> bool" where
  "isAuthenticated w = held (accessToken w)"

definition getAuthHeaders :: "world \<Rightarrow> headers" where
  "getAuthHeaders w =
     (let headers = [(''Content-Type'', ''application/json'')]
      in if held (accessToken w)
         then AList.update ''Authorization'' (''Bearer '' @ the (accessToken w)) headers
         else headers)"

section \<open>The response cache\<close>

text \<open>
  Modelled from the spec: the module \<open>./cache\<close> (\<open>invalidateProductCache\<close>,
  \<open>invalidateMemorabiliaCache\<close>, \<open>invalidateMerchandiseCache\<close>) is imported by the API
  service but its source is not available. The spec: "synchronously invalidate all cache
  entries belonging to that family (coarse-grained, family-wide invalidation, not
  per-key)". Which family a cache key belongs to is not stated anywhere, so it is the
  parameter \<open>fam\<close>.
\<close>

datatype family = Products | Memorabilia | Merchandises

text \<open>Modelled from the spec: the invalidation shared by the three absent functions of
  \<open>./cache\<close>, "invalidate all cache entries belonging to that family".\<close>

definition invalidate_family :: "(string \<Rightarrow> family option) \<Rightarrow> family \<Rightarrow> world \<Rightarrow> world" where
  "invalidate_family fam f w =
     w\<lparr>cache := (\<lambda>k. if fam k = Some f then None else cache w k)\<rparr>"

text \<open>Modelled from the spec: \<open>invalidateProductCache\<close>, \<open>invalidateMemorabiliaCache\<close>
  and \<open>invalidateMerchandiseCache\<close> of the absent module \<open>./cache\<close>, one per resource
  family.\<close>

definition invalidateProductCache :: "(string \<Rightarrow> family option) \<Rightarrow> world \<Rightarrow> world" where
  "invalidateProductCache fam w = invalidate_family fam Products w"

definition invalidateMemorabiliaCache :: "(string \<Rightarrow> family option) \<Rightarrow> world \<Rightarrow> world" where
  "invalidateMemorabiliaCache fam w = invalidate_family fam Memorabilia w"

definition invalidateMerchandiseCache :: "(string \<Rightarrow> family option) \<Rightarrow> world \<Rightarrow> world" where
  "invalidateMerchandiseCache fam w = invalidate_family fam Merchandises w"

section \<open>ApiService.request\<close>

definition fetch :: "network \<Rightarrow> http_request \<Rightarrow> world \<Rightarrow> fetch_result \<times> world" where
  "fetch net req w = (api_fetch net (trace w) req, w\<lparr>trace := trace w @ [Fetch req]\<rparr>)"

text \<open>The argument of \<open>fetch\<close>: the options with the headers replaced by
  \<open>{...authService.getAuthHeaders(), ...options.headers}\<close>.\<close>

definition build_request :: "string \<Rightarrow> RequestInit \<Rightarrow> world \<Rightarrow> http_request" where
  "build_request u options w =
     \<lparr>url = u, http_method = opt_method options,
      req_headers = spread (getAuthHeaders w) (opt_headers options),
      req_body = opt_body options\<rparr>"

definition session_expired :: error where
  "session_expired = Error ''Session expired. Please login again.''"

text \<open>From \<open>if (!response.ok)\<close> to the end of the \<open>try\<close> block. A body that does not
  parse counts as \<open>{}\<close> on the error path and throws on the success path.\<close>

definition handle_response :: "nat \<Rightarrow> body \<Rightarrow> error + json" where
  "handle_response st b =
     (if \<not> response_ok st then
        Inl (detail_error (case b of Invalid _ \<Rightarrow> JObj [] | Parsed j \<Rightarrow> j)
                          (''HTTP error! status: '' @ string_of_nat st))
      else if st = 204 then Inr (JObj [])
      else (case b of Invalid m \<Rightarrow> Inl (SyntaxError m) | Parsed j \<Rightarrow> Inr j))"

text \<open>The \<open>try\<close> block of \<open>request\<close>. The re-dispatch sits inside the inner \<open>try\<close>, so a
  rejected re-dispatch is caught by the same handler as a failed refresh.\<close>

definition request_try :: "network \<Rightarrow> string \<Rightarrow> RequestInit \<Rightarrow> world \<Rightarrow> (error + json) \<times> world" where
  "request_try net u options w =
     (case fetch net (build_request u options w) w of
        (NetworkError m, w1) \<Rightarrow> (Inl (TypeError m), w1)
      | (Response st b, w1) \<Rightarrow>
          if st = 401 \<and> isAuthenticated w1 then
            (case refreshAccessToken net w1 of
               (Inl refreshError, w2) \<Rightarrow> (Inl session_expired, logout w2)
             | (Inr tokens, w2) \<Rightarrow>
                 (case fetch net (build_request u options w2) w2 of
                    (NetworkError m, w3) \<Rightarrow> (Inl session_expired, logout w3)
                  | (Response st2 b2, w3) \<Rightarrow> (handle_response st2 b2, w3)))
          else (handle_response st b, w1))"

text \<open>The test of the \<open>catch\<close> block that selects the empty list response.\<close>

definition falls_back :: "string \<Rightarrow> bool" where
  "falls_back endpoint =
     (str_includes endpoint ''products'' \<or> str_includes endpoint ''memorabilia''
      \<or> str_includes endpoint ''merchandise'')"

definition empty_list_response :: "string \<Rightarrow> json" where
  "empty_list_response msg =
     JObj [(''rows'', JArr []), (''total'', JNum 0), (''offset'', JNum 0), (''error'', JStr msg)]"

definition request :: "network \<Rightarrow> string \<Rightarrow> RequestInit \<Rightarrow> world \<Rightarrow> (error + json) \<times> world" where
  "request net endpoint options w =
     (case request_try net (API_BASE_URL @ endpoint) options w of
        (Inr v, w') \<Rightarrow> (Inr v, w')
      | (Inl e, w') \<Rightarrow>
          if falls_back endpoint then (Inr (empty_list_response (message e)), w')
          else (Inl e, w'))"

section \<open>ApiService: the endpoints\<close>

text \<open>The query string (\<open>searchParams.toString()\<close>) is an argument: its percent-encoding
  plays no part below. A payload \<open>data\<close> is the JSON value that \<open>JSON.stringify\<close>
  serialises.\<close>

definition getProducts :: "network \<Rightarrow> string \<Rightarrow> world \<Rightarrow> (error + json) \<times> world" where
  "getProducts net query w = request net (''/v1/products/?'' @ query) no_options w"

definition searchProducts :: "network \<Rightarrow> string \<Rightarrow> world \<Rightarrow> (error + json) \<times> world" where
  "searchProducts net query w =
     (case request net (''/v1/products/search?'' @ query) no_options w of
        (Inr result, w1) \<Rightarrow> (Inr result, w1)
      | (Inl e, w1) \<Rightarrow> request net (''/v1/products/?'' @ query) no_options w1)"

definition getProduct :: "network \<Rightarrow> string \<Rightarrow> world \<Rightarrow> (error + json) \<times> world" where
  "getProduct net idOrSlug w =
     (case request net (''/v1/products/'' @ idOrSlug) no_options w of
        (Inr result, w1) \<Rightarrow> (Inr result, w1)
      | (Inl e, w1) \<Rightarrow> (Inl e, w1))"

text \<open>The update, delete and (for memorabilia and merchandise) create methods all have
  one shape: \<open>const result = await this.request(endpoint, {method, body})\<close>, then the
  family's invalidation, then \<open>return result\<close>; a rejected request skips the
  invalidation.\<close>

definition mutate ::
  "network \<Rightarrow> string \<Rightarrow> string \<Rightarrow> json option \<Rightarrow> (world \<Rightarrow> world) \<Rightarrow> world \<Rightarrow> (error + json) \<times> world"
where
  "mutate net endpoint m data invalidate w =
     (case request net endpoint
             \<lparr>opt_method = Some m, opt_headers = [], opt_body = map_option JsonText data\<rparr> w of
        (Inl e, w1) \<Rightarrow> (Inl e, w1)
      | (Inr result, w1) \<Rightarrow> (Inr result, invalidate w1))"

definition updateProduct ::
  "(string \<Rightarrow> family option) \<Rightarrow> network \<Rightarrow> string \<Rightarrow> json \<Rightarrow> world \<Rightarrow> (error + json) \<times> world" where
  "updateProduct fam net ident data w =
     mutate net (''/v1/products/'' @ ident) ''PATCH'' (Some data) (invalidateProductCache fam) w"

definition deleteProduct ::
  "(string \<Rightarrow> family option) \<Rightarrow> network \<Rightarrow> string \<Rightarrow> world \<Rightarrow> (error + json) \<times> world" where
  "deleteProduct fam net ident w =
     mutate net (''/v1/products/'' @ ident) ''DELETE'' None (invalidateProductCache fam) w"

definition getMemorabilia :: "network \<Rightarrow> string \<Rightarrow> world \<Rightarrow> (error + json) \<times> world" where
  "getMemorabilia net query w = request net (''/v1/memorabilia/?'' @ query) no_options w"

definition getMemorabiliaItem :: "network \<Rightarrow> string \<Rightarrow> world \<Rightarrow> (error + json) \<times> world" where
  "getMemorabiliaItem net idOrSlug w = request net (''/v1/memorabilia/'' @ idOrSlug) no_options w"

definition createMemorabilia ::
  "(string \<Rightarrow> family option) \<Rightarrow> network \<Rightarrow> json \<Rightarrow> world \<Rightarrow> (error + json) \<times> world" where
  "createMemorabilia fam net data w =
     mutate net ''/v1/memorabilia/'' ''POST'' (Some data) (invalidateMemorabiliaCache fam) w"

definition updateMemorabilia ::
  "(string \<Rightarrow> family option) \<Rightarrow> network \<Rightarrow> string \<Rightarrow> json \<Rightarrow> world \<Rightarrow> (error + json) \<times> world" where
  "updateMemorabilia fam net ident data w =
     mutate net (''/v1/memorabilia/'' @ ident) ''PATCH'' (Some data) (invalidateMemorabiliaCache fam) w"

definition deleteMemorabilia ::
  "(string \<Rightarrow> family option) \<Rightarrow> network \<Rightarrow> string \<Rightarrow> world \<Rightarrow> (error + json) \<times> world" where
  "deleteMemorabilia fam net ident w =
     mutate net (''/v1/memorabilia/'' @ ident) ''DELETE'' None (invalidateMemorabiliaCache fam) w"

definition getMerchandise :: "network \<Rightarrow> string \<Rightarrow> world \<Rightarrow> (error + json) \<times> world" where
  "getMerchandise net query w = request net (''/v1/merchandises/?'' @ query) no_options w"

definition getMerchandiseItem :: "network \<Rightarrow> string \<Rightarrow> world \<Rightarrow> (error + json) \<times> world" where
  "getMerchandiseItem net idOrSlug w = request net (''/v1/merchandises/'' @ idOrSlug) no_options w"

definition createMerchandise ::
  "(string \<Rightarrow> family option) \<Rightarrow> network \<Rightarrow> json \<Rightarrow> world \<Rightarrow> (error + json) \<times> world" where
  "createMerchandise fam net data w =
     mutate net ''/v1/merchandises/'' ''POST'' (Some data) (invalidateMerchandiseCache fam) w"

definition updateMerchandise ::
  "(string \<Rightarrow> family option) \<Rightarrow> network \<Rightarrow> string \<Rightarrow> json \<Rightarrow> world \<Rightarrow> (error + json) \<times> world" where
  "updateMerchandise fam net ident data w =
     mutate net (''/v1/merchandises/'' @ ident) ''PATCH'' (Some data) (invalidateMerchandiseCache fam) w"

definition deleteMerchandise ::
  "(string \<Rightarrow> family option) \<Rightarrow> network \<Rightarrow> string \<Rightarrow> world \<Rightarrow> (error + json) \<times> world" where
  "deleteMerchandise fam net ident w =
     mutate net (''/v1/merchandises/'' @ ident) ''DELETE'' None (invalidateMerchandiseCache fam) w"

text \<open>\<open>uploadFile\<close> reads the Authorization header once, when the call is made, and
  passes it as a header of its own.\<close>

definition uploadFile :: "network \<Rightarrow> string \<Rightarrow> world \<Rightarrow> (error + json) \<times> world" where
  "uploadFile net file w =
     request net ''/v1/uploads/''
       \<lparr>opt_method = Some ''POST'',
        opt_headers = [(''Authorization'',
           (case map_of (getAuthHeaders w) ''Authorization'' of None \<Rightarrow> [] | Some a \<Rightarrow> a))],
        opt_body = Some (FormData [(''file'', file)])\<rparr> w"

definition deleteFile :: "network \<Rightarrow> string \<Rightarrow> world \<Rightarrow> (error + json) \<times> world" where
  "deleteFile net query w =
     request net (''/v1/uploads/?'' @ query)
       \<lparr>opt_method = Some ''DELETE'', opt_headers = [], opt_body = None\<rparr> w"

section \<open>ApiService.createProduct\<close>

datatype RentalPeriod = hourly | daily | weekly | monthly | yearly

text \<open>\<open>ProductCreate\<close> and \<open>Product\<close>, with the properties that \<open>createProduct\<close>
  reads and writes; the prices, URLs and linked ids of the interfaces are read nowhere.\<close>

record ProductCreate =
  pc_title :: string
  pc_subtitle :: "string option"
  pc_description :: "string option"
  pc_product_types :: "string list option"
  pc_movies :: "string list option"
  pc_genres :: "string list option"
  pc_keywords :: "string list option"
  pc_available_rental_periods :: "RentalPeriod list option"
  pc_images :: "string list option"
  pc_is_background_image_activated :: "bool option"
  pc_is_trending_model :: "bool option"
  pc_slug :: "string option"

record Product =
  p_id :: string
  p_title :: string
  p_subtitle :: string
  p_description :: string
  p_product_types :: "string list"
  p_movies :: "string list"
  p_genres :: "string list"
  p_keywords :: "string list"
  p_available_rental_periods :: "RentalPeriod list"
  p_images :: "string list"
  p_is_background_image_activated :: bool
  p_is_trending_model :: bool
  p_slug :: string
  p_created_at :: string
  p_updated_at :: string

text \<open>The readings of the clock: \<open>Date.now()\<close> and the two \<open>new Date().toISOString()\<close>.\<close>

record clock =
  date_now :: nat
  created_iso :: string
  updated_iso :: string

text \<open>The two functions of the JavaScript string library that \<open>createProduct\<close> calls,
  \<open>String.prototype.toLowerCase\<close> and \<open>replace(/\s+/g, '-')\<close>. Both follow the Unicode
  tables of the runtime (case mappings, the white-space class of regular expressions), so
  they are parameters of the model.\<close>

record string_library =
  toLowerCase :: "string \<Rightarrow> string"
  replace_spaces :: "string \<Rightarrow> string"

definition or_else :: "'a option \<Rightarrow> 'a \<Rightarrow> 'a" where
  "or_else v d = (case v of None \<Rightarrow> d | Some x \<Rightarrow> x)"

text \<open>The call to the API is commented out in the source; what runs is the timer and
  the construction of the mock. The \<open>catch\<close> block builds the same mock and is reached
  by nothing the \<open>try\<close> block does.\<close>

definition createProduct ::
  "string_library \<Rightarrow> clock \<Rightarrow> ProductCreate \<Rightarrow> world \<Rightarrow> (error + Product) \<times> world" where
  "createProduct lib clk data w =
     (let w1 = w\<lparr>trace := trace w @ [Timeout 500]\<rparr>;
          mockProduct =
            \<lparr>p_id = ''mock-'' @ string_of_nat (date_now clk),
             p_title = pc_title data,
             p_subtitle = or_else (pc_subtitle data) [],
             p_description = or_else (pc_description data) [],
             p_product_types = or_else (pc_product_types data) [],
             p_movies = or_else (pc_movies data) [],
             p_genres = or_else (pc_genres data) [],
             p_keywords = or_else (pc_keywords data) [],
             p_available_rental_periods = or_else (pc_available_rental_periods data) [],
             p_images = or_else (pc_images data) [],
             p_is_background_image_activated = or_else (pc_is_background_image_activated data) False,
             p_is_trending_model = or_else (pc_is_trending_model data) False,
             p_slug = (if held (pc_slug data) then the (pc_slug data)
                       else replace_spaces lib (toLowerCase lib (pc_title data))),
             p_created_at = created_iso clk,
             p_updated_at = updated_iso clk\<rparr>
      in (Inr mockProduct, w1))"

section \<open>Cached reads\<close>

text \<open>
  Modelled from the spec: the hook \<open>useApi\<close> (\<open>hooks/useApi\<close>) is called by the pages
  with \<open>cacheKey\<close>, \<open>cacheTTL\<close> and \<open>staleWhileRevalidate\<close>, but its source is not
  available. The spec: an entry is fresh iff \<open>now - fetchedAt < ttl\<close>; a cache-eligible
  read returns a fresh entry "immediately without a network call"; a stale entry with
  stale-while-revalidate is returned at once and refreshed in the background, at most
  one refresh per key being in flight, a failed background refresh being swallowed;
  otherwise the call is dispatched and "on a successful cacheable read" the entry is
  written. A read is cache-eligible when it supplies a key.
\<close>

record ReadOptions =
  cacheKey :: "string option"
  cacheTTL :: int
  staleWhileRevalidate :: bool

type_synonym api_call = "world \<Rightarrow> (error + json) \<times> world"

text \<open>Modelled from the spec: freshness of an entry of the absent cache,
  "fresh iff \<open>now - fetchedAt < ttl\<close>".\<close>

definition fresh :: "int \<Rightarrow> CacheEntry \<Rightarrow> bool" where
  "fresh now e = (now - fetchedAt e < ttl e)"

text \<open>Modelled from the spec: the cache write of the absent hook, "on a successful
  cacheable read, write/refresh the cache entry".\<close>

definition cache_write :: "string \<Rightarrow> json \<Rightarrow> int \<Rightarrow> int \<Rightarrow> world \<Rightarrow> world" where
  "cache_write k v now t w =
     w\<lparr>cache := (cache w)(k \<mapsto>
        \<lparr>entry_key = k, entry_value = v, fetchedAt = now, ttl = t, inflightRefresh = False\<rparr>)\<rparr>"

text \<open>Modelled from the spec: steps 2 to 6 of a read by the absent hook \<open>useApi\<close>: the
  call is dispatched and its value, when there is one, written to the cache.\<close>

definition fetch_and_store :: "api_call \<Rightarrow> string \<Rightarrow> int \<Rightarrow> int \<Rightarrow> world \<Rightarrow> (error + json) \<times> world" where
  "fetch_and_store apiCall k t now w =
     (case apiCall w of
        (Inl e, w1) \<Rightarrow> (Inl e, w1)
      | (Inr v, w1) \<Rightarrow> (Inr v, cache_write k v now t w1))"

text \<open>Modelled from the spec: the start of a background refresh by the absent hook; the
  entry is marked so that one refresh per key is in flight.\<close>

definition start_revalidation :: "string \<Rightarrow> world \<Rightarrow> world" where
  "start_revalidation k w =
     (case cache w k of
        None \<Rightarrow> w
      | Some e \<Rightarrow> w\<lparr>cache := (cache w)(k \<mapsto> e\<lparr>inflightRefresh := True\<rparr>)\<rparr>)"

text \<open>Modelled from the spec: the background refresh of the absent hook, when it
  completes at time \<open>now\<close>: its result replaces the entry; a failure is swallowed and the
  stale value stays.\<close>

definition finish_revalidation :: "api_call \<Rightarrow> string \<Rightarrow> int \<Rightarrow> int \<Rightarrow> world \<Rightarrow> world" where
  "finish_revalidation apiCall k t now w =
     (case apiCall w of
        (Inl e, w1) \<Rightarrow>
          (case cache w1 k of
             None \<Rightarrow> w1
           | Some en \<Rightarrow> w1\<lparr>cache := (cache w1)(k \<mapsto> en\<lparr>inflightRefresh := False\<rparr>)\<rparr>)
      | (Inr v, w1) \<Rightarrow> cache_write k v now t w1)"

text \<open>Modelled from the spec: \<open>execute\<close> of the absent hook \<open>useApi\<close>, step 1 of the
  pipeline followed by the dispatch.\<close>

definition execute :: "api_call \<Rightarrow> ReadOptions \<Rightarrow> int \<Rightarrow> world \<Rightarrow> (error + json) \<times> world" where
  "execute apiCall opts now w =
     (case cacheKey opts of
        None \<Rightarrow> apiCall w
      | Some k \<Rightarrow>
          (case cache w k of
             None \<Rightarrow> fetch_and_store apiCall k (cacheTTL opts) now w
           | Some e \<Rightarrow>
               if fresh now e then (Inr (entry_value e), w)
               else if staleWhileRevalidate opts then (Inr (entry_value e), start_revalidation k w)
               else fetch_and_store apiCall k (cacheTTL opts) now w))"

section \<open>Observations and invariants\<close>

text \<open>The events a call has added to the trace.\<close>

definition events_since :: "world \<Rightarrow> world \<Rightarrow> event list" where
  "events_since w w' = drop (length (trace w)) (trace w')"

fun is_network :: "event \<Rightarrow> bool" where
  "is_network (Fetch r) = True"
| "is_network (AuthFetch r) = True"
| "is_network _ = False"

definition dispatches :: "event list \<Rightarrow> http_request list" where
  "dispatches evs = concat (map (\<lambda>e. case e of Fetch r \<Rightarrow> [r] | _ \<Rightarrow> []) evs)"

definition refresh_calls :: "event list \<Rightarrow> nat" where
  "refresh_calls evs = count_list evs RefreshInvoked"

definition authorization :: "http_request \<Rightarrow> string option" where
  "authorization r = map_of (req_headers r) ''Authorization''"

text \<open>The endpoints the four list methods (\<open>getProducts\<close>, \<open>searchProducts\<close>,
  \<open>getMemorabilia\<close>, \<open>getMerchandise\<close>) request.\<close>

definition listing_endpoint :: "string \<Rightarrow> bool" where
  "listing_endpoint endpoint =
     (prefix ''/v1/products/?'' endpoint \<or> prefix ''/v1/products/search?'' endpoint
      \<or> prefix ''/v1/memorabilia/?'' endpoint \<or> prefix ''/v1/merchandises/?'' endpoint)"

definition both_or_neither :: "world \<Rightarrow> bool" where
  "both_or_neither w = (held (accessToken w) = held (refreshToken w))"

definition tokens_cleared :: "world \<Rightarrow> bool" where
  "tokens_cleared w =
     (accessToken w = None \<and> refreshToken w = None
      \<and> localStorage w ''access_token'' = None \<and> localStorage w ''refresh_token'' = None)"

text \<open>A host that never grants a pair of which exactly one token is empty.\<close>

definition grants_pairs :: "network \<Rightarrow> bool" where
  "grants_pairs net =
     (\<forall>h r t. auth_fetch net h r = AuthGranted (Inr t)
          \<longrightarrow> ((access_token t = []) = (refresh_token t = [])))"

datatype auth_op = Login LoginCredentials | Refresh | Logout

fun auth_step :: "network \<Rightarrow> auth_op \<Rightarrow> world \<Rightarrow> world" where
  "auth_step net (Login c) w = snd (login net c w)"
| "auth_step net Refresh w = snd (refreshAccessToken net w)"
| "auth_step net Logout w = logout w"

fun run_ops :: "network \<Rightarrow> auth_op list \<Rightarrow> world \<Rightarrow> world" where
  "run_ops net [] w = w"
| "run_ops net (x # xs) w = run_ops net xs (auth_step net x w)"

section \<open>Example hosts and states\<close>

definition tokens2 :: TokenResponse where
  "tokens2 = \<lparr>access_token = ''A2'', refresh_token = ''R2'', token_type = ''bearer''\<rparr>"

text \<open>Storage after a login, and storage in which only the access token survived.\<close>

definition full_storage :: "string \<rightharpoonup> string" where
  "full_storage = [''access_token'' \<mapsto> ''A1'', ''refresh_token'' \<mapsto> ''R1'']"

definition partial_storage :: "string \<rightharpoonup> string" where
  "partial_storage = [''access_token'' \<mapsto> ''A1'']"

text \<open>A host that cannot be reached.\<close>

definition net_down :: network where
  "net_down = \<lparr>api_fetch = (\<lambda>h r. NetworkError ''Failed to fetch''),
               auth_fetch = (\<lambda>h r. AuthNetworkError ''Failed to fetch'')\<rparr>"

text \<open>A host that answers every API request with the given status and body and rejects
  every refresh.\<close>

definition net_status :: "nat \<Rightarrow> body \<Rightarrow> network" where
  "net_status st b = \<lparr>api_fetch = (\<lambda>h r. Response st b),
                      auth_fetch = (\<lambda>h r. AuthRejected (Parsed (JObj [(''detail'', JStr ''Invalid token'')])))\<rparr>"

text \<open>A host that answers the first API request with 401, grants the refresh, and
  answers later API requests with 200.\<close>

definition net_expired_once :: network where
  "net_expired_once =
     \<lparr>api_fetch = (\<lambda>h r. if h = [] then Response 401 (Parsed (JObj [(''detail'', JStr ''Token expired'')]))
                         else Response 200 (Parsed (JObj [(''id'', JStr ''f1''), (''url'', JStr ''/f1.png'')]))),
      auth_fetch = (\<lambda>h r. AuthGranted (Inr tokens2))\<rparr>"

text \<open>For the examples only: what the two library functions compute on a string of
  ASCII characters. A letter A to Z is lowered; every maximal run of tab, line feed,
  vertical tab, form feed, carriage return and space becomes one hyphen. Outside ASCII the
  library does more, and these definitions are not used there.\<close>

definition ascii_lower_char :: "char \<Rightarrow> char" where
  "ascii_lower_char c =
     (if of_char c \<ge> (65::nat) \<and> of_char c \<le> (90::nat) then char_of (of_char c + (32::nat)) else c)"

definition ascii_is_space :: "char \<Rightarrow> bool" where
  "ascii_is_space c = (of_char c \<in> {9::nat, 10, 11, 12, 13, 32})"

function ascii_replace_spaces :: "string \<Rightarrow> string" where
  "ascii_replace_spaces [] = []"
| "ascii_replace_spaces (c # cs) =
     (if ascii_is_space c then CHR ''-'' # ascii_replace_spaces (dropWhile ascii_is_space cs)
      else c # ascii_replace_spaces cs)"
  by pat_completeness auto
termination
  by (relation "measure length") (auto simp: length_dropWhile_le less_Suc_eq_le)

definition ascii_library :: string_library where
  "ascii_library = \<lparr>toLowerCase = map ascii_lower_char, replace_spaces = ascii_replace_spaces\<rparr>"

definition some_clock :: clock where
  "some_clock = \<lparr>date_now = 1700000000000, created_iso = ''2023-11-14T22:13:20.000Z'',
                 updated_iso = ''2023-11-14T22:13:20.000Z''\<rparr>"

definition some_product :: ProductCreate where
  "some_product =
     \<lparr>pc_title = ''Time  Machine DeLorean'', pc_subtitle = None, pc_description = None,
      pc_product_types = None, pc_movies = Some [''Back to the Future''], pc_genres = None,
      pc_keywords = None, pc_available_rental_periods = Some [daily, weekly], pc_images = None,
      pc_is_background_image_activated = None, pc_is_trending_model = Some True,
      pc_slug = None\<rparr>"

definition some_entry :: CacheEntry where
  "some_entry = \<lparr>entry_key = ''products:p0'', entry_value = JObj [(''rows'', JArr [])],
                 fetchedAt = 1000, ttl = 5000, inflightRefresh = False\<rparr>"

text \<open>Keys are assigned to families by their first letters, for the examples.\<close>

definition family_by_prefix :: "string \<Rightarrow> family option" where
  "family_by_prefix k =
     (if prefix ''products'' k then Some Products
      else if prefix ''memorabilia'' k then Some Memorabilia
      else if prefix ''merchandise'' k then Some Merchandises
      else None)"

definition cached_world :: world where
  "cached_world = (AuthService_new full_storage)\<lparr>cache := [''products:p0'' \<mapsto> some_entry]\<rparr>"

text \<open>A cached list read, and a host that answers every API request with an empty page.\<close>

definition list_options :: ReadOptions where
  "list_options = \<lparr>cacheKey = Some ''products:p0'', cacheTTL = 5000, staleWhileRevalidate = True\<rparr>"

definition net_rows :: network where
  "net_rows = net_status 200 (Parsed (JObj [(''rows'', JArr []), (''total'', JNum 0), (''offset'', JNum 0)]))"

section \<open>Basic facts\<close>

lemma held_None [simp]: "\<not> held None"
  by (simp add: held_def)

lemma held_Some [simp]: "held (Some s) = (s \<noteq> [])"
  by (simp add: held_def)

lemma tokens_cleared_clear [simp]: "tokens_cleared (clearTokensFromStorage w)"
  by (simp add: tokens_cleared_def clearTokensFromStorage_def)

lemma trace_clear [simp]: "trace (clearTokensFromStorage w) = trace w"
  by (simp add: clearTokensFromStorage_def)

lemma cache_clear [simp]: "cache (clearTokensFromStorage w) = cache w"
  by (simp add: clearTokensFromStorage_def)

lemma trace_save [simp]: "trace (saveTokensToStorage t w) = trace w"
  by (simp add: saveTokensToStorage_def)

lemma cache_save [simp]: "cache (saveTokensToStorage t w) = cache w"
  by (simp add: saveTokensToStorage_def)

text \<open>The three ways \<open>refreshAccessToken\<close> ends: the guard, a granted pair, anything else.\<close>

lemma refresh_no_token:
  "\<not> held (refreshToken w) \<Longrightarrow>
     refreshAccessToken net w =
       (Inl (Error ''No refresh token available''), w\<lparr>trace := trace w @ [RefreshInvoked]\<rparr>)"
  by (simp add: refreshAccessToken_def Let_def)

lemma refresh_granted:
  assumes "held (refreshToken w)"
    and "auth_fetch net (trace w @ [RefreshInvoked]) (refresh_request (the (refreshToken w)))
           = AuthGranted (Inr tokens)"
  shows "refreshAccessToken net w =
     (Inr tokens, saveTokensToStorage tokens
        (w\<lparr>trace := trace w @ [RefreshInvoked, AuthFetch (refresh_request (the (refreshToken w)))]\<rparr>))"
  using assms by (simp add: refreshAccessToken_def auth_request_def Let_def)

lemma refresh_not_granted:
  assumes "held (refreshToken w)"
    and "\<forall>tokens. auth_fetch net (trace w @ [RefreshInvoked]) (refresh_request (the (refreshToken w)))
           \<noteq> AuthGranted (Inr tokens)"
  shows "\<exists>e. refreshAccessToken net w =
     (Inl e, clearTokensFromStorage
        (w\<lparr>trace := trace w @ [RefreshInvoked, AuthFetch (refresh_request (the (refreshToken w)))]\<rparr>))"
  using assms
  by (simp add: refreshAccessToken_def auth_request_def Let_def
      split: auth_fetch_result.splits body.splits sum.splits)

lemma refresh_Inl_cases:
  assumes "fst (refreshAccessToken net w) = Inl e"
  shows "(\<not> held (refreshToken w)
            \<and> snd (refreshAccessToken net w) = w\<lparr>trace := trace w @ [RefreshInvoked]\<rparr>)
         \<or> (held (refreshToken w)
            \<and> snd (refreshAccessToken net w) = clearTokensFromStorage
                (w\<lparr>trace := trace w @ [RefreshInvoked, AuthFetch (refresh_request (the (refreshToken w)))]\<rparr>))"
proof (cases "held (refreshToken w)")
  case False
  then show ?thesis by (simp add: refresh_no_token)
next
  case True
  show ?thesis
  proof (cases "\<exists>tokens. auth_fetch net (trace w @ [RefreshInvoked])
                   (refresh_request (the (refreshToken w))) = AuthGranted (Inr tokens)")
    case True
    with \<open>held (refreshToken w)\<close> assms show ?thesis
      by (auto simp: refresh_granted)
  next
    case False
    with \<open>held (refreshToken w)\<close> refresh_not_granted [of w net] show ?thesis
      by auto
  qed
qed

section \<open>The credential store\<close>

text \<open>
  C10. Calling \<open>refreshAccessToken\<close> while no refresh token is held fails with
  "No refresh token available" and changes neither the tokens in memory nor the persisted
  ones: an access token held before is still held, \<open>isAuthenticated\<close> keeps its value,
  and nothing is sent to the network.
\<close>

theorem refresh_without_refresh_token:
  "\<not> held (refreshToken w) \<Longrightarrow>
     fst (refreshAccessToken net w) = Inl (Error ''No refresh token available'')
     \<and> accessToken (snd (refreshAccessToken net w)) = accessToken w
     \<and> refreshToken (snd (refreshAccessToken net w)) = refreshToken w
     \<and> localStorage (snd (refreshAccessToken net w)) = localStorage w
     \<and> isAuthenticated (snd (refreshAccessToken net w)) = isAuthenticated w
     \<and> filter is_network (events_since w (snd (refreshAccessToken net w))) = []"
  by (simp add: refresh_no_token isAuthenticated_def events_since_def)

theorem refresh_without_refresh_token_witness:
  "\<not> held (refreshToken (AuthService_new partial_storage))
   \<and> fst (refreshAccessToken net_down (AuthService_new partial_storage))
       = Inl (Error ''No refresh token available'')
   \<and> accessToken (snd (refreshAccessToken net_down (AuthService_new partial_storage))) = Some ''A1''
   \<and> isAuthenticated (snd (refreshAccessToken net_down (AuthService_new partial_storage)))"
proof -
  have h: "\<not> held (refreshToken (AuthService_new partial_storage))"
    by (simp add: AuthService_new_def loadTokensFromStorage_def partial_storage_def)
  have a: "accessToken (AuthService_new partial_storage) = Some ''A1''"
    by (simp add: AuthService_new_def loadTokensFromStorage_def partial_storage_def)
  show ?thesis
    using h a refresh_without_refresh_token [OF h, of net_down]
    by (simp add: isAuthenticated_def)
qed

text \<open>
  C5, as stated, fails: hydrated from a storage that holds only the access token, the
  store has no refresh token, \<open>refreshAccessToken\<close> fails at its guard, and afterwards
  \<open>isAuthenticated\<close> is still true and \<open>getAuthHeaders\<close> still carries the bearer header.
\<close>

theorem failed_refresh_keeps_access_token_counterexample:
  "(\<exists>e. fst (refreshAccessToken net_down (AuthService_new partial_storage)) = Inl e)
   \<and> isAuthenticated (snd (refreshAccessToken net_down (AuthService_new partial_storage)))
   \<and> map_of (getAuthHeaders (snd (refreshAccessToken net_down (AuthService_new partial_storage))))
        ''Authorization'' = Some ''Bearer A1''"
  by (simp add: refreshAccessToken_def Let_def AuthService_new_def loadTokensFromStorage_def
      partial_storage_def isAuthenticated_def getAuthHeaders_def)

text \<open>
  C5, amended. For every state in which a refresh token is held and \<open>refreshAccessToken\<close>
  fails (the request is rejected, the status is not ok, the body does not parse),
  immediately afterwards \<open>isAuthenticated\<close> is false and \<open>getAuthHeaders\<close> omits the
  Authorization field.
\<close>

theorem failed_refresh_with_token_logs_out:
  assumes "held (refreshToken w)" and "fst (refreshAccessToken net w) = Inl e"
  shows "\<not> isAuthenticated (snd (refreshAccessToken net w))
         \<and> map_of (getAuthHeaders (snd (refreshAccessToken net w))) ''Authorization'' = None"
  using assms refresh_Inl_cases [OF assms(2)]
  by (auto simp: isAuthenticated_def getAuthHeaders_def clearTokensFromStorage_def)

theorem failed_refresh_with_token_logs_out_witness:
  "held (refreshToken (AuthService_new full_storage))
   \<and> fst (refreshAccessToken net_down (AuthService_new full_storage)) = Inl (TypeError ''Failed to fetch'')
   \<and> \<not> isAuthenticated (snd (refreshAccessToken net_down (AuthService_new full_storage)))
   \<and> map_of (getAuthHeaders (snd (refreshAccessToken net_down (AuthService_new full_storage))))
        ''Authorization'' = None"
proof -
  have h: "held (refreshToken (AuthService_new full_storage))"
    by (simp add: AuthService_new_def loadTokensFromStorage_def full_storage_def)
  have f: "fst (refreshAccessToken net_down (AuthService_new full_storage))
             = Inl (TypeError ''Failed to fetch'')"
    using h by (simp add: refreshAccessToken_def auth_request_def Let_def net_down_def)
  show ?thesis
    using h f failed_refresh_with_token_logs_out [OF h f] by simp
qed

section \<open>The token pair\<close>

lemma both_or_neither_clear [simp]: "both_or_neither (clearTokensFromStorage w)"
  by (simp add: both_or_neither_def clearTokensFromStorage_def)

lemma both_or_neither_trace [simp]:
  "both_or_neither (w\<lparr>trace := t\<rparr>) = both_or_neither w"
  by (simp add: both_or_neither_def)

lemma both_or_neither_save:
  "(access_token t = []) = (refresh_token t = []) \<Longrightarrow> both_or_neither (saveTokensToStorage t w)"
  by (simp add: both_or_neither_def saveTokensToStorage_def)

lemma login_preserves:
  assumes "grants_pairs net" and "both_or_neither w"
  shows "both_or_neither (snd (login net c w))"
proof (cases "\<exists>t. fst (auth_request net
          \<lparr>url = API_BASE_URL @ ''/v1/auth/login'', http_method = Some ''POST'', req_headers = [],
           req_body = Some (FormData [(''username'', username c), (''password'', password c),
                                      (''grant_type'', ''password'')])\<rparr> w) = AuthGranted (Inr t)")
  case True
  then obtain t where t: "fst (auth_request net
          \<lparr>url = API_BASE_URL @ ''/v1/auth/login'', http_method = Some ''POST'', req_headers = [],
           req_body = Some (FormData [(''username'', username c), (''password'', password c),
                                      (''grant_type'', ''password'')])\<rparr> w) = AuthGranted (Inr t)"
    by blast
  then have "(access_token t = []) = (refresh_token t = [])"
    using assms(1) by (auto simp: grants_pairs_def auth_request_def)
  with t show ?thesis
    by (simp add: login_def Let_def split_beta both_or_neither_save)
next
  case False
  with assms(2) show ?thesis
    by (auto simp: login_def Let_def split_beta auth_request_def
        split: auth_fetch_result.splits body.splits sum.splits)
qed

lemma refresh_preserves:
  assumes "grants_pairs net" and "both_or_neither w"
  shows "both_or_neither (snd (refreshAccessToken net w))"
proof (cases "held (refreshToken w)")
  case False
  with assms(2) show ?thesis by (simp add: refresh_no_token)
next
  case True
  show ?thesis
  proof (cases "\<exists>t. auth_fetch net (trace w @ [RefreshInvoked])
                   (refresh_request (the (refreshToken w))) = AuthGranted (Inr t)")
    case True
    then obtain t where t: "auth_fetch net (trace w @ [RefreshInvoked])
                   (refresh_request (the (refreshToken w))) = AuthGranted (Inr t)"
      by blast
    then have "(access_token t = []) = (refresh_token t = [])"
      using assms(1) by (auto simp: grants_pairs_def)
    with t \<open>held (refreshToken w)\<close> show ?thesis
      by (simp add: refresh_granted both_or_neither_save)
  next
    case False
    with \<open>held (refreshToken w)\<close> refresh_not_granted [of w net] show ?thesis
      by auto
  qed
qed

lemma auth_step_preserves:
  "grants_pairs net \<Longrightarrow> both_or_neither w \<Longrightarrow> both_or_neither (auth_step net x w)"
  by (cases x) (simp_all add: login_preserves refresh_preserves logout_def)

lemma run_ops_preserves:
  "grants_pairs net \<Longrightarrow> both_or_neither w \<Longrightarrow> both_or_neither (run_ops net ops w)"
  by (induction ops arbitrary: w) (simp_all add: auth_step_preserves)

text \<open>
  C6, as stated, fails: hydration reads the two storage keys independently, so a storage
  that holds only \<open>access_token\<close> yields a store with an access token and no refresh
  token.
\<close>

theorem hydration_partial_counterexample:
  "held (accessToken (AuthService_new partial_storage))
   \<and> \<not> held (refreshToken (AuthService_new partial_storage))
   \<and> \<not> both_or_neither (run_ops net_down [] (AuthService_new partial_storage))"
  by (simp add: AuthService_new_def loadTokensFromStorage_def partial_storage_def both_or_neither_def)

text \<open>
  C6, amended. When the storage holds both tokens or neither, and the host never grants a
  pair of which exactly one token is empty, the access token is held if and only if the
  refresh token is held after construction and after every sequence of login, refresh
  and logout operations.
\<close>

theorem token_pair_invariant:
  assumes "held (storage ''access_token'') = held (storage ''refresh_token'')"
    and "grants_pairs net"
  shows "both_or_neither (AuthService_new storage)
         \<and> both_or_neither (run_ops net ops (AuthService_new storage))"
proof -
  have "both_or_neither (AuthService_new storage)"
    using assms(1) by (simp add: AuthService_new_def loadTokensFromStorage_def both_or_neither_def)
  then show ?thesis
    using assms(2) by (simp add: run_ops_preserves)
qed

theorem token_pair_invariant_witness:
  "held (full_storage ''access_token'') = held (full_storage ''refresh_token'')
   \<and> grants_pairs net_expired_once
   \<and> both_or_neither (run_ops net_expired_once
        [Refresh, Logout, Login \<lparr>username = ''admin'', password = ''secret''\<rparr>, Refresh]
        (AuthService_new full_storage))"
proof -
  have s: "held (full_storage ''access_token'') = held (full_storage ''refresh_token'')"
    by (simp add: full_storage_def)
  have g: "grants_pairs net_expired_once"
    by (simp add: grants_pairs_def net_expired_once_def tokens2_def)
  show ?thesis
    using s g token_pair_invariant [OF s g,
        of "[Refresh, Logout, Login \<lparr>username = ''admin'', password = ''secret''\<rparr>, Refresh]"]
    by blast
qed

section \<open>Facts about the request pipeline\<close>

lemma snd_request: "snd (request net endpoint options w) = snd (request_try net (API_BASE_URL @ endpoint) options w)"
  by (simp add: request_def split: prod.splits sum.splits)

lemma fst_request:
  "fst (request net endpoint options w) =
     (case fst (request_try net (API_BASE_URL @ endpoint) options w) of
        Inr v \<Rightarrow> Inr v
      | Inl e \<Rightarrow> if falls_back endpoint then Inr (empty_list_response (message e)) else Inl e)"
  by (simp add: request_def split: prod.splits sum.splits)

lemma refresh_trace:
  "\<exists>evs. trace (snd (refreshAccessToken net w)) = trace w @ RefreshInvoked # evs
         \<and> (evs = [] \<or> (\<exists>r. evs = [AuthFetch r]))"
  by (cases "held (refreshToken w)")
     (auto simp: refreshAccessToken_def auth_request_def Let_def
       split: auth_fetch_result.splits body.splits sum.splits)

lemma request_try_refresh_failed:
  assumes "api_fetch net (trace w) (build_request u options w) = Response 401 b"
    and "isAuthenticated w"
    and "fst (refreshAccessToken net (w\<lparr>trace := trace w @ [Fetch (build_request u options w)]\<rparr>)) = Inl e"
  shows "request_try net u options w =
     (Inl session_expired,
      logout (snd (refreshAccessToken net (w\<lparr>trace := trace w @ [Fetch (build_request u options w)]\<rparr>))))"
  using assms
  by (cases "refreshAccessToken net (w\<lparr>trace := trace w @ [Fetch (build_request u options w)]\<rparr>)")
     (simp add: request_try_def fetch_def isAuthenticated_def)

lemma request_try_refreshed:
  assumes "api_fetch net (trace w) (build_request u options w) = Response 401 b"
    and "isAuthenticated w"
    and "refreshAccessToken net (w\<lparr>trace := trace w @ [Fetch (build_request u options w)]\<rparr>) = (Inr t, w2)"
  shows "request_try net u options w =
     (case api_fetch net (trace w2) (build_request u options w2) of
        NetworkError m \<Rightarrow>
          (Inl session_expired, logout (w2\<lparr>trace := trace w2 @ [Fetch (build_request u options w2)]\<rparr>))
      | Response st2 b2 \<Rightarrow>
          (handle_response st2 b2, w2\<lparr>trace := trace w2 @ [Fetch (build_request u options w2)]\<rparr>))"
  using assms
  by (simp add: request_try_def fetch_def isAuthenticated_def)

lemma request_try_direct:
  assumes "api_fetch net (trace w) (build_request u options w) = Response st b"
    and "st \<noteq> 401 \<or> \<not> isAuthenticated w"
  shows "request_try net u options w =
     (handle_response st b, w\<lparr>trace := trace w @ [Fetch (build_request u options w)]\<rparr>)"
  using assms by (auto simp: request_try_def fetch_def isAuthenticated_def)

lemma request_try_rejected:
  assumes "api_fetch net (trace w) (build_request u options w) = NetworkError m"
  shows "request_try net u options w =
     (Inl (TypeError m), w\<lparr>trace := trace w @ [Fetch (build_request u options w)]\<rparr>)"
  using assms by (auto simp: request_try_def fetch_def)

lemma trace_logout [simp]: "trace (logout w) = trace w"
  by (simp add: logout_def)

lemma url_build [simp]: "url (build_request u options w) = u"
  by (simp add: build_request_def)

lemma dispatches_simps [simp]:
  "dispatches [] = []"
  "dispatches (Fetch r # evs) = r # dispatches evs"
  "dispatches (AuthFetch r # evs) = dispatches evs"
  "dispatches (RefreshInvoked # evs) = dispatches evs"
  "dispatches (Timeout n # evs) = dispatches evs"
  "dispatches (xs @ ys) = dispatches xs @ dispatches ys"
  by (simp_all add: dispatches_def)

lemma refresh_calls_simps [simp]:
  "refresh_calls [] = 0"
  "refresh_calls (Fetch r # evs) = refresh_calls evs"
  "refresh_calls (AuthFetch r # evs) = refresh_calls evs"
  "refresh_calls (RefreshInvoked # evs) = Suc (refresh_calls evs)"
  "refresh_calls (Timeout n # evs) = refresh_calls evs"
  by (simp_all add: refresh_calls_def)

text \<open>The events of a request that met a 401 while a token was held.\<close>

lemma unauthorized_events:
  assumes "api_fetch net (trace w) (build_request u options w) = Response 401 b"
    and "isAuthenticated w"
  shows "\<exists>evs rest. trace (snd (request_try net u options w))
            = trace w @ Fetch (build_request u options w) # RefreshInvoked # evs @ rest
          \<and> (evs = [] \<or> (\<exists>r. evs = [AuthFetch r]))
          \<and> (rest = [] \<or> (\<exists>r. rest = [Fetch r] \<and> url r = u))
          \<and> ((\<exists>e. fst (refreshAccessToken net (w\<lparr>trace := trace w @ [Fetch (build_request u options w)]\<rparr>)) = Inl e)
               \<longrightarrow> rest = [])"
proof -
  let ?w1 = "w\<lparr>trace := trace w @ [Fetch (build_request u options w)]\<rparr>"
  obtain evs where evs: "trace (snd (refreshAccessToken net ?w1)) = trace ?w1 @ RefreshInvoked # evs"
    "evs = [] \<or> (\<exists>r. evs = [AuthFetch r])"
    using refresh_trace [of net ?w1] by blast
  show ?thesis
  proof (cases "fst (refreshAccessToken net ?w1)")
    case (Inl e)
    then have "trace (snd (request_try net u options w)) = trace (snd (refreshAccessToken net ?w1))"
      by (simp add: request_try_refresh_failed [OF assms])
    with evs Inl show ?thesis
      by (intro exI [of _ evs] exI [of _ "[]"]) auto
  next
    case (Inr t)
    let ?w2 = "snd (refreshAccessToken net ?w1)"
    have r: "refreshAccessToken net ?w1 = (Inr t, ?w2)"
      using Inr by (simp add: prod_eq_iff)
    have "trace (snd (request_try net u options w)) = trace ?w2 @ [Fetch (build_request u options ?w2)]"
      by (simp add: request_try_refreshed [OF assms r] split: fetch_result.splits)
    with evs Inr show ?thesis
      by (intro exI [of _ evs] exI [of _ "[Fetch (build_request u options ?w2)]"]) auto
  qed
qed

lemma includes_middle: "str_includes (a @ sub @ b) sub"
  by (simp add: str_includes_def)

lemma falls_back_products: "falls_back (''/v1/products/'' @ x)"
  using includes_middle [of "''/v1/''" "''products''" "''/'' @ x"]
  by (simp add: falls_back_def)

lemma falls_back_memorabilia: "falls_back (''/v1/memorabilia/'' @ x)"
  using includes_middle [of "''/v1/''" "''memorabilia''" "''/'' @ x"]
  by (simp add: falls_back_def)

lemma falls_back_merchandises: "falls_back (''/v1/merchandises/'' @ x)"
  using includes_middle [of "''/v1/''" "''merchandise''" "''s/'' @ x"]
  by (simp add: falls_back_def)

lemma listing_falls_back:
  assumes "listing_endpoint e"
  shows "falls_back e"
proof -
  have "falls_back (''/v1/products/?'' @ zs)" for zs
    using falls_back_products [of "''?'' @ zs"] by simp
  moreover have "falls_back (''/v1/products/search?'' @ zs)" for zs
    using falls_back_products [of "''search?'' @ zs"] by simp
  moreover have "falls_back (''/v1/memorabilia/?'' @ zs)" for zs
    using falls_back_memorabilia [of "''?'' @ zs"] by simp
  moreover have "falls_back (''/v1/merchandises/?'' @ zs)" for zs
    using falls_back_merchandises [of "''?'' @ zs"] by simp
  ultimately show ?thesis
    using assms unfolding listing_endpoint_def prefix_def by blast
qed

lemma uploads_not_fallback: "\<not> falls_back ''/v1/uploads/''"
  by (simp add: falls_back_def str_includes_def sublist_Cons_right)

lemma events_since_append:
  "trace w' = trace w @ evs \<Longrightarrow> events_since w w' = evs"
  by (simp add: events_since_def)

lemma example_world [simp]:
  "accessToken (AuthService_new full_storage) = Some ''A1''"
  "refreshToken (AuthService_new full_storage) = Some ''R1''"
  "trace (AuthService_new s) = []"
  "accessToken (AuthService_new Map.empty) = None"
  by (simp_all add: AuthService_new_def loadTokensFromStorage_def full_storage_def)

lemma getProduct_is_request:
  "getProduct net idOrSlug w = request net (''/v1/products/'' @ idOrSlug) no_options w"
  by (simp add: getProduct_def split: prod.splits sum.splits)

section \<open>The request pipeline\<close>

text \<open>
  C1: on the code, the empty list response is not confined to listing requests. The test
  of the \<open>catch\<close> block looks for the family name anywhere in the endpoint, so the
  detail endpoint \<open>/v1/products/delorean\<close> passes it: with the host unreachable,
  \<open>getProduct\<close> returns the empty list response instead of failing.
\<close>

theorem getProduct_failure_is_swallowed:
  "fst (getProduct net_down ''delorean'' (AuthService_new full_storage))
     = Inr (empty_list_response ''Failed to fetch'')"
proof -
  have "request_try net_down (API_BASE_URL @ ''/v1/products/'' @ ''delorean'') no_options
          (AuthService_new full_storage)
        = (Inl (TypeError ''Failed to fetch''),
           (AuthService_new full_storage)\<lparr>trace := trace (AuthService_new full_storage)
              @ [Fetch (build_request (API_BASE_URL @ ''/v1/products/'' @ ''delorean'') no_options
                         (AuthService_new full_storage))]\<rparr>)"
    by (rule request_try_rejected) (simp add: net_down_def)
  then show ?thesis
    by (simp add: getProduct_is_request fst_request falls_back_products del: append.simps)
qed

text \<open>
  C2, as stated, fails: a listing request that meets a 401 with a token held and whose
  refresh is rejected does not fail; it returns the empty list response whose \<open>error\<close>
  field is the session-expired message.
\<close>

theorem session_expired_on_listing_counterexample:
  "api_fetch (net_status 401 (Invalid [])) (trace (AuthService_new full_storage))
       (build_request (API_BASE_URL @ ''/v1/products/?'') no_options (AuthService_new full_storage))
     = Response 401 (Invalid [])
   \<and> isAuthenticated (AuthService_new full_storage)
   \<and> fst (request (net_status 401 (Invalid [])) ''/v1/products/?'' no_options (AuthService_new full_storage))
       = Inr (empty_list_response ''Session expired. Please login again.'')"
  by (simp add: fst_request request_try_def fetch_def logout_def net_status_def isAuthenticated_def
     AuthService_new_def loadTokensFromStorage_def full_storage_def refreshAccessToken_def
     auth_request_def Let_def session_expired_def falls_back_def str_includes_def sublist_Cons_right)

text \<open>
  C2, amended. For every request whose first response has status 401 while a token is
  held, \<open>refreshAccessToken\<close> is entered once and the request is dispatched at most
  twice. If that refresh fails, the stored tokens are cleared, the request has been
  dispatched exactly once, and the call ends with the session-expired outcome: the error
  for an endpoint outside the fallback test, the empty list response carrying the
  session-expired message for a listing endpoint.
\<close>

theorem unauthorized_refresh_at_most_once:
  assumes "api_fetch net (trace w) (build_request (API_BASE_URL @ endpoint) options w) = Response 401 b"
    and "isAuthenticated w"
  shows "refresh_calls (events_since w (snd (request net endpoint options w))) = 1
     \<and> length (dispatches (events_since w (snd (request net endpoint options w)))) \<le> 2
     \<and> ((\<exists>e. fst (refreshAccessToken net
                  (snd (fetch net (build_request (API_BASE_URL @ endpoint) options w) w))) = Inl e) \<longrightarrow>
          tokens_cleared (snd (request net endpoint options w))
          \<and> dispatches (events_since w (snd (request net endpoint options w)))
              = [build_request (API_BASE_URL @ endpoint) options w]
          \<and> (\<not> falls_back endpoint \<longrightarrow> fst (request net endpoint options w) = Inl session_expired)
          \<and> (listing_endpoint endpoint \<longrightarrow>
                fst (request net endpoint options w)
                  = Inr (empty_list_response ''Session expired. Please login again.'')))"
proof -
  let ?u = "API_BASE_URL @ endpoint"
  let ?w1 = "w\<lparr>trace := trace w @ [Fetch (build_request ?u options w)]\<rparr>"
  obtain evs rest where tr: "trace (snd (request_try net ?u options w))
            = trace w @ Fetch (build_request ?u options w) # RefreshInvoked # evs @ rest"
      and evs: "evs = [] \<or> (\<exists>r. evs = [AuthFetch r])"
      and rest: "rest = [] \<or> (\<exists>r. rest = [Fetch r] \<and> url r = ?u)"
      and failed: "(\<exists>e. fst (refreshAccessToken net ?w1) = Inl e) \<longrightarrow> rest = []"
    using unauthorized_events [OF assms] by blast
  have ev: "events_since w (snd (request net endpoint options w))
              = Fetch (build_request ?u options w) # RefreshInvoked # evs @ rest"
    by (rule events_since_append) (simp add: snd_request tr)
  have calls: "refresh_calls (events_since w (snd (request net endpoint options w))) = 1"
    using evs rest by (auto simp: ev refresh_calls_def)
  have disp: "length (dispatches (events_since w (snd (request net endpoint options w)))) \<le> 2"
    using evs rest by (auto simp: ev)
  have fail: "tokens_cleared (snd (request net endpoint options w))
          \<and> dispatches (events_since w (snd (request net endpoint options w)))
              = [build_request ?u options w]
          \<and> (\<not> falls_back endpoint \<longrightarrow> fst (request net endpoint options w) = Inl session_expired)
          \<and> (listing_endpoint endpoint \<longrightarrow>
                fst (request net endpoint options w)
                  = Inr (empty_list_response ''Session expired. Please login again.''))"
    if f: "fst (refreshAccessToken net ?w1) = Inl e" for e
  proof -
    have rt: "request_try net ?u options w =
        (Inl session_expired, logout (snd (refreshAccessToken net ?w1)))"
      using request_try_refresh_failed [OF assms f] .
    have "rest = []" using failed f by blast
    then have "dispatches (events_since w (snd (request net endpoint options w)))
              = [build_request ?u options w]"
      using evs by (auto simp: ev)
    moreover have "tokens_cleared (snd (request net endpoint options w))"
      by (simp add: snd_request rt logout_def)
    moreover have "\<not> falls_back endpoint \<longrightarrow> fst (request net endpoint options w) = Inl session_expired"
      by (simp add: fst_request rt)
    moreover have "listing_endpoint endpoint \<longrightarrow>
                fst (request net endpoint options w)
                  = Inr (empty_list_response ''Session expired. Please login again.'')"
      by (auto simp: fst_request rt session_expired_def dest: listing_falls_back)
    ultimately show ?thesis by blast
  qed
  have w1: "snd (fetch net (build_request ?u options w) w) = ?w1"
    by (simp add: fetch_def)
  show ?thesis
    using calls disp fail unfolding w1 by blast
qed

theorem unauthorized_refresh_at_most_once_witness:
  "api_fetch (net_status 401 (Invalid [])) (trace (AuthService_new full_storage))
       (build_request (API_BASE_URL @ ''/v1/uploads/'') no_options (AuthService_new full_storage))
     = Response 401 (Invalid [])
   \<and> isAuthenticated (AuthService_new full_storage)
   \<and> \<not> falls_back ''/v1/uploads/''
   \<and> refresh_calls (events_since (AuthService_new full_storage)
         (snd (request (net_status 401 (Invalid [])) ''/v1/uploads/'' no_options (AuthService_new full_storage)))) = 1
   \<and> tokens_cleared (snd (request (net_status 401 (Invalid [])) ''/v1/uploads/'' no_options (AuthService_new full_storage)))
   \<and> fst (request (net_status 401 (Invalid [])) ''/v1/uploads/'' no_options (AuthService_new full_storage))
       = Inl session_expired
   \<and> listing_endpoint ''/v1/memorabilia/?limit=100''
   \<and> fst (request (net_status 401 (Invalid [])) ''/v1/memorabilia/?limit=100'' no_options
             (AuthService_new full_storage))
       = Inr (empty_list_response ''Session expired. Please login again.'')"
proof -
  let ?w = "AuthService_new full_storage"
  let ?net = "net_status 401 (Invalid [])"
  have a: "api_fetch ?net (trace ?w) (build_request (API_BASE_URL @ ''/v1/uploads/'') no_options ?w)
     = Response 401 (Invalid [])"
    by (simp add: net_status_def)
  have b: "isAuthenticated ?w"
    by (simp add: isAuthenticated_def)
  have c: "\<exists>e. fst (refreshAccessToken ?net
                  (snd (fetch ?net (build_request (API_BASE_URL @ ''/v1/uploads/'') no_options ?w) ?w))) = Inl e"
    by (simp add: refreshAccessToken_def auth_request_def fetch_def Let_def net_status_def)
  have a': "api_fetch ?net (trace ?w)
       (build_request (API_BASE_URL @ ''/v1/memorabilia/?limit=100'') no_options ?w)
     = Response 401 (Invalid [])"
    by (simp add: net_status_def)
  have c': "\<exists>e. fst (refreshAccessToken ?net
       (snd (fetch ?net (build_request (API_BASE_URL @ ''/v1/memorabilia/?limit=100'') no_options ?w) ?w)))
         = Inl e"
    by (simp add: refreshAccessToken_def auth_request_def fetch_def Let_def net_status_def)
  have l: "listing_endpoint ''/v1/memorabilia/?limit=100''"
    by (simp add: listing_endpoint_def)
  show ?thesis
    using a b c uploads_not_fallback l c'
      unauthorized_refresh_at_most_once [OF a b]
      unauthorized_refresh_at_most_once [OF a' b]
    by blast
qed

text \<open>
  C4: on the code, a retried upload does not carry the refreshed token. \<open>uploadFile\<close>
  passes the Authorization header it read before the call, and the caller's headers are
  spread after the auth headers, so after the refresh to \<open>A2\<close> the second dispatch still
  carries \<open>Bearer A1\<close>.
\<close>

theorem upload_retry_sends_stale_token:
  "map authorization (dispatches (trace (snd (uploadFile net_expired_once ''poster.png''
        (AuthService_new full_storage)))))
     = [Some ''Bearer A1'', Some ''Bearer A1'']
   \<and> accessToken (snd (uploadFile net_expired_once ''poster.png'' (AuthService_new full_storage)))
     = Some ''A2''"
  by (simp add: uploadFile_def snd_request request_try_def fetch_def build_request_def
      getAuthHeaders_def spread_def net_expired_once_def isAuthenticated_def
      refreshAccessToken_def auth_request_def Let_def tokens2_def saveTokensToStorage_def
      handle_response_def response_ok_def authorization_def)

text \<open>
  C7, as stated, fails: when the body has a \<open>detail\<close> field the error is just that
  detail, so a 404 and a 500 with the same detail give the same error; the status code
  is not carried.
\<close>

theorem status_not_carried_counterexample:
  "fst (request (net_status 404 (Parsed (JObj [(''detail'', JStr ''Not found'')])))
          ''/v1/uploads/'' no_options (AuthService_new Map.empty)) = Inl (Error ''Not found'')
   \<and> fst (request (net_status 500 (Parsed (JObj [(''detail'', JStr ''Not found'')])))
          ''/v1/uploads/'' no_options (AuthService_new Map.empty)) = Inl (Error ''Not found'')"
  by (simp add: fst_request uploads_not_fallback request_try_direct net_status_def
      handle_response_def response_ok_def)

text \<open>
  C7, amended. For every request to an endpoint outside the fallback test whose response
  is not a handled 401: a non-2xx response makes the call fail with an error whose
  message is the \<open>detail\<close> field of the JSON body when that is a non-empty string, and
  the generic message "HTTP error! status: <code>" when the body does not parse or has
  no \<open>detail\<close> field; a 204 response yields the empty object; any other 2xx response
  yields its body parsed as JSON.
\<close>

theorem response_handling:
  assumes "\<not> falls_back endpoint"
    and "api_fetch net (trace w) (build_request (API_BASE_URL @ endpoint) options w) = Response st b"
    and "st \<noteq> 401 \<or> \<not> isAuthenticated w"
  shows "(\<not> response_ok st \<and> b = Parsed (JObj props) \<and> map_of props ''detail'' = Some (JStr d) \<and> d \<noteq> []
            \<longrightarrow> fst (request net endpoint options w) = Inl (Error d))
       \<and> (\<not> response_ok st \<and> (b = Invalid m \<or> (b = Parsed (JObj props) \<and> map_of props ''detail'' = None))
            \<longrightarrow> fst (request net endpoint options w)
                  = Inl (Error (''HTTP error! status: '' @ string_of_nat st)))
       \<and> (st = 204 \<longrightarrow> fst (request net endpoint options w) = Inr (JObj []))
       \<and> (response_ok st \<and> st \<noteq> 204 \<and> b = Parsed j \<longrightarrow> fst (request net endpoint options w) = Inr j)"
  using assms(1)
  by (auto simp: fst_request request_try_direct [OF assms(2,3)] handle_response_def response_ok_def)

theorem response_handling_witness:
  "\<not> falls_back ''/v1/uploads/''
   \<and> fst (request (net_status 404 (Parsed (JObj [(''detail'', JStr ''Not found'')])))
          ''/v1/uploads/'' no_options (AuthService_new Map.empty)) = Inl (Error ''Not found'')
   \<and> fst (request (net_status 503 (Invalid ''Unexpected token'')) ''/v1/uploads/'' no_options
          (AuthService_new full_storage)) = Inl (Error ''HTTP error! status: 503'')
   \<and> fst (request (net_status 204 (Invalid ''Unexpected end of JSON input'')) ''/v1/uploads/'' no_options
          (AuthService_new full_storage)) = Inr (JObj [])
   \<and> fst (request (net_status 200 (Parsed (JObj [(''id'', JStr ''f1'')]))) ''/v1/uploads/'' no_options
          (AuthService_new full_storage)) = Inr (JObj [(''id'', JStr ''f1'')])"
proof -
  have s: "string_of_nat 503 = ''503''" by code_simp
  have ok: "\<not> response_ok 404" "\<not> response_ok 503" "response_ok 200"
    by (simp_all add: response_ok_def)
  have a: "fst (request (net_status 404 (Parsed (JObj [(''detail'', JStr ''Not found'')])))
          ''/v1/uploads/'' no_options (AuthService_new Map.empty)) = Inl (Error ''Not found'')"
    using response_handling [OF uploads_not_fallback,
        where net = "net_status 404 (Parsed (JObj [(''detail'', JStr ''Not found'')]))"
        and w = "AuthService_new Map.empty" and options = no_options and st = 404
        and b = "Parsed (JObj [(''detail'', JStr ''Not found'')])"
        and props = "[(''detail'', JStr ''Not found'')]" and d = "''Not found''"]
      ok
    by (simp add: net_status_def)
  have b: "fst (request (net_status 503 (Invalid ''Unexpected token'')) ''/v1/uploads/'' no_options
          (AuthService_new full_storage)) = Inl (Error ''HTTP error! status: 503'')"
    using response_handling [OF uploads_not_fallback,
        where net = "net_status 503 (Invalid ''Unexpected token'')"
        and w = "AuthService_new full_storage" and options = no_options and st = 503
        and b = "Invalid ''Unexpected token''" and m = "''Unexpected token''"]
      ok s
    by (simp add: net_status_def)
  have c: "fst (request (net_status 204 (Invalid ''Unexpected end of JSON input'')) ''/v1/uploads/'' no_options
          (AuthService_new full_storage)) = Inr (JObj [])"
    using response_handling [OF uploads_not_fallback,
        where net = "net_status 204 (Invalid ''Unexpected end of JSON input'')"
        and w = "AuthService_new full_storage" and options = no_options and st = 204
        and b = "Invalid ''Unexpected end of JSON input''"]
    by (simp add: net_status_def)
  have d: "fst (request (net_status 200 (Parsed (JObj [(''id'', JStr ''f1'')]))) ''/v1/uploads/'' no_options
          (AuthService_new full_storage)) = Inr (JObj [(''id'', JStr ''f1'')])"
    using response_handling [OF uploads_not_fallback,
        where net = "net_status 200 (Parsed (JObj [(''id'', JStr ''f1'')]))"
        and w = "AuthService_new full_storage" and options = no_options and st = 200
        and b = "Parsed (JObj [(''id'', JStr ''f1'')])" and j = "JObj [(''id'', JStr ''f1'')]"]
      ok
    by (simp add: net_status_def)
  show ?thesis
    using uploads_not_fallback a b c d by blast
qed

section \<open>createProduct\<close>

lemma slug_example:
  "replace_spaces ascii_library (toLowerCase ascii_library ''Time  Machine DeLorean'')
     = ''time-machine-delorean''"
  by code_simp

lemma id_example: "string_of_nat 1700000000000 = ''1700000000000''"
  by (simp add: string_of_nat.simps)

text \<open>
  C8. \<open>createProduct\<close> sends nothing to the network: for every input and every state
  (authenticated or not) it succeeds, after the 500 ms timer, with a mock product whose
  title is the input title, whose id begins with \<open>mock-\<close> and whose slug, when none is
  supplied, is what the string library's \<open>toLowerCase\<close> followed by its
  \<open>replace(/\s+/g, '-')\<close> makes of the title; the cache and the tokens are left as they
  were.
\<close>

theorem createProduct_is_a_mock:
  "(case createProduct lib clk data w of
      (Inl e, w') \<Rightarrow> False
    | (Inr p, w') \<Rightarrow>
        p_title p = pc_title data
        \<and> prefix ''mock-'' (p_id p)
        \<and> (\<not> held (pc_slug data) \<longrightarrow>
              p_slug p = replace_spaces lib (toLowerCase lib (pc_title data)))
        \<and> events_since w w' = [Timeout 500]
        \<and> cache w' = cache w
        \<and> accessToken w' = accessToken w \<and> refreshToken w' = refreshToken w
        \<and> localStorage w' = localStorage w)"
  by (simp add: createProduct_def Let_def events_since_def)

theorem createProduct_is_a_mock_witness:
  "\<not> held (pc_slug some_product)
   \<and> \<not> isAuthenticated (AuthService_new Map.empty)
   \<and> (case createProduct ascii_library some_clock some_product (AuthService_new Map.empty) of
        (Inl e, w') \<Rightarrow> False
      | (Inr p, w') \<Rightarrow> p_slug p = ''time-machine-delorean'' \<and> p_id p = ''mock-1700000000000''
           \<and> p_title p = ''Time  Machine DeLorean'' \<and> trace w' = [Timeout 500])"
  using createProduct_is_a_mock [where lib = ascii_library and clk = some_clock and data = some_product
      and w = "AuthService_new Map.empty"]
  by (simp add: createProduct_def Let_def some_product_def some_clock_def slug_example id_example
      isAuthenticated_def AuthService_new_def loadTokensFromStorage_def)

section \<open>The cache\<close>

lemma request_falls_back:
  "falls_back endpoint \<Longrightarrow> \<exists>v. fst (request net endpoint options w) = Inr v"
  by (simp add: fst_request split: sum.splits)

lemma mutate_invalidates:
  assumes "falls_back endpoint"
  shows "snd (mutate net endpoint m d invalidate w) = invalidate (snd (request net endpoint
             \<lparr>opt_method = Some m, opt_headers = [], opt_body = map_option JsonText d\<rparr> w))"
  using request_falls_back [OF assms, of net "\<lparr>opt_method = Some m, opt_headers = [], opt_body = map_option JsonText d\<rparr>" w]
  by (auto simp: mutate_def split: prod.splits sum.splits)

lemma invalidated_key: "fam k = Some f \<Longrightarrow> cache (invalidate_family fam f w) k = None"
  by (simp add: invalidate_family_def)

lemma execute_miss:
  "cache w k = None \<Longrightarrow>
     execute apiCall \<lparr>cacheKey = Some k, cacheTTL = t, staleWhileRevalidate = swr\<rparr> now w
       = fetch_and_store apiCall k t now w"
  by (simp add: execute_def)

lemma example_families:
  "family_by_prefix ''products:p0'' = Some Products"
  "family_by_prefix ''memorabilia-list-'' = Some Memorabilia"
  "family_by_prefix ''merchandise-list-'' = Some Merchandises"
  by (simp_all add: family_by_prefix_def)

lemma getProducts_example:
  "fst (getProducts net_rows [] (AuthService_new full_storage))
     = Inr (JObj [(''rows'', JArr []), (''total'', JNum 0), (''offset'', JNum 0)])"
proof -
  have "request_try net_rows (API_BASE_URL @ ''/v1/products/?'' @ []) no_options (AuthService_new full_storage)
      = (handle_response 200 (Parsed (JObj [(''rows'', JArr []), (''total'', JNum 0), (''offset'', JNum 0)])),
         (AuthService_new full_storage)\<lparr>trace := trace (AuthService_new full_storage)
            @ [Fetch (build_request (API_BASE_URL @ ''/v1/products/?'' @ []) no_options
                 (AuthService_new full_storage))]\<rparr>)"
    by (rule request_try_direct) (simp_all add: net_rows_def net_status_def)
  then show ?thesis
    by (simp add: getProducts_def fst_request handle_response_def response_ok_def del: append.simps)
qed

text \<open>
  C3, as stated, fails for the creation of a product: \<open>createProduct\<close> succeeds and
  leaves every cached entry of the product family in place.
\<close>

theorem createProduct_keeps_cache_counterexample:
  "(\<exists>p. fst (createProduct ascii_library some_clock some_product cached_world) = Inr p)
   \<and> family_by_prefix ''products:p0'' = Some Products
   \<and> cache (snd (createProduct ascii_library some_clock some_product cached_world)) ''products:p0'' = Some some_entry"
  by (simp add: createProduct_def Let_def cached_world_def family_by_prefix_def)

text \<open>
  C3, amended. Every update and delete of a product, and every create, update and delete
  of a memorabilia or merchandise item, invalidates all cache entries of its family
  before it returns (the request to these endpoints never rejects, so this covers every
  successful mutation); after a product update or delete, a read for any product key
  misses the cache and fetches again. \<open>createProduct\<close> is a mock that invalidates
  nothing.
\<close>

theorem mutation_invalidates_family:
  "(fam k = Some Products \<longrightarrow>
      cache (snd (updateProduct fam net ident data w)) k = None
      \<and> cache (snd (deleteProduct fam net ident w)) k = None
      \<and> execute apiCall \<lparr>cacheKey = Some k, cacheTTL = t, staleWhileRevalidate = swr\<rparr> now
            (snd (updateProduct fam net ident data w))
          = fetch_and_store apiCall k t now (snd (updateProduct fam net ident data w))
      \<and> execute apiCall \<lparr>cacheKey = Some k, cacheTTL = t, staleWhileRevalidate = swr\<rparr> now
            (snd (deleteProduct fam net ident w))
          = fetch_and_store apiCall k t now (snd (deleteProduct fam net ident w)))
   \<and> (fam k = Some Memorabilia \<longrightarrow>
      cache (snd (createMemorabilia fam net data w)) k = None
      \<and> cache (snd (updateMemorabilia fam net ident data w)) k = None
      \<and> cache (snd (deleteMemorabilia fam net ident w)) k = None)
   \<and> (fam k = Some Merchandises \<longrightarrow>
      cache (snd (createMerchandise fam net data w)) k = None
      \<and> cache (snd (updateMerchandise fam net ident data w)) k = None
      \<and> cache (snd (deleteMerchandise fam net ident w)) k = None)"
proof -
  have m0: "falls_back ''/v1/memorabilia/''" using falls_back_memorabilia [of "[]"] by simp
  have m1: "falls_back ''/v1/merchandises/''" using falls_back_merchandises [of "[]"] by simp
  show ?thesis
    by (simp add: updateProduct_def deleteProduct_def createMemorabilia_def updateMemorabilia_def
      deleteMemorabilia_def createMerchandise_def updateMerchandise_def deleteMerchandise_def
      mutate_invalidates falls_back_products falls_back_memorabilia falls_back_merchandises m0 m1
      invalidateProductCache_def invalidateMemorabiliaCache_def invalidateMerchandiseCache_def
      invalidated_key execute_miss del: append.simps)
qed

theorem mutation_invalidates_family_witness:
  "family_by_prefix ''products:p0'' = Some Products
   \<and> family_by_prefix ''memorabilia-list-'' = Some Memorabilia
   \<and> family_by_prefix ''merchandise-list-'' = Some Merchandises
   \<and> cache cached_world ''products:p0'' = Some some_entry
   \<and> cache (snd (updateProduct family_by_prefix (net_status 200 (Parsed (JObj [(''id'', JStr ''42'')])))
                   ''42'' (JObj [(''title'', JStr ''DeLorean'')]) cached_world)) ''products:p0'' = None
   \<and> cache (snd (deleteMemorabilia family_by_prefix (net_status 204 (Invalid []))
                   ''7'' cached_world)) ''memorabilia-list-'' = None
   \<and> cache (snd (createMerchandise family_by_prefix (net_status 200 (Parsed (JObj [(''id'', JStr ''9'')])))
                   (JObj [(''title'', JStr ''Poster'')]) cached_world)) ''merchandise-list-'' = None"
  using example_families
    mutation_invalidates_family [where fam = family_by_prefix and k = "''products:p0''"
      and net = "net_status 200 (Parsed (JObj [(''id'', JStr ''42'')]))" and ident = "''42''"
      and data = "JObj [(''title'', JStr ''DeLorean'')]" and w = cached_world]
    mutation_invalidates_family [where fam = family_by_prefix and k = "''memorabilia-list-''"
      and net = "net_status 204 (Invalid [])" and ident = "''7''" and w = cached_world]
    mutation_invalidates_family [where fam = family_by_prefix and k = "''merchandise-list-''"
      and net = "net_status 200 (Parsed (JObj [(''id'', JStr ''9'')]))"
      and data = "JObj [(''title'', JStr ''Poster'')]" and w = cached_world]
  by (simp add: cached_world_def)

text \<open>
  C9. For every cache key whose entry is younger than its TTL, a cache-eligible read for
  that key returns the entry's value and leaves the world, and so the trace of network
  calls, as it was; and the value served within the TTL after a read that missed the
  cache and fetched successfully is the value that was fetched.
\<close>

theorem fresh_entry_served:
  "(cacheKey opts = Some k \<and> cache w k = Some e \<and> fresh now e \<longrightarrow>
       execute apiCall opts now w = (Inr (entry_value e), w))
   \<and> (cacheKey opts = Some k \<and> cache w k = None \<and> fst (apiCall w) = Inr v
        \<and> now - t0 < cacheTTL opts \<longrightarrow>
       fst (execute apiCall opts t0 w) = Inr v
       \<and> execute apiCall' opts now (snd (execute apiCall opts t0 w))
           = (Inr v, snd (execute apiCall opts t0 w)))"
  by (auto simp: execute_def fetch_and_store_def cache_write_def fresh_def split: prod.splits)

theorem fresh_entry_served_witness:
  "cacheKey list_options = Some ''products:p0''
   \<and> cache cached_world ''products:p0'' = Some some_entry
   \<and> fresh 2000 some_entry
   \<and> execute (getProducts net_down []) list_options 2000 cached_world
        = (Inr (JObj [(''rows'', JArr [])]), cached_world)
   \<and> cache (AuthService_new full_storage) ''products:p0'' = None
   \<and> fst (getProducts net_rows [] (AuthService_new full_storage))
        = Inr (JObj [(''rows'', JArr []), (''total'', JNum 0), (''offset'', JNum 0)])
   \<and> (3000::int) - 1000 < cacheTTL list_options
   \<and> fst (execute (getProducts net_down []) list_options 3000
             (snd (execute (getProducts net_rows []) list_options 1000 (AuthService_new full_storage))))
        = Inr (JObj [(''rows'', JArr []), (''total'', JNum 0), (''offset'', JNum 0)])"
proof -
  have a: "cacheKey list_options = Some ''products:p0''" "(3000::int) - 1000 < cacheTTL list_options"
    by (simp_all add: list_options_def)
  have b: "cache cached_world ''products:p0'' = Some some_entry" "fresh 2000 some_entry"
    "entry_value some_entry = JObj [(''rows'', JArr [])]"
    by (simp_all add: cached_world_def fresh_def some_entry_def)
  have c: "cache (AuthService_new full_storage) ''products:p0'' = None"
    by (simp add: AuthService_new_def loadTokensFromStorage_def)
  show ?thesis
    using a b c getProducts_example
      fresh_entry_served [where opts = list_options and k = "''products:p0''" and w = cached_world
        and e = some_entry and now = 2000 and apiCall = "getProducts net_down []"]
      fresh_entry_served [where opts = list_options and k = "''products:p0''"
        and w = "AuthService_new full_storage" and apiCall = "getProducts net_rows []"
        and v = "JObj [(''rows'', JArr []), (''total'', JNum 0), (''offset'', JNum 0)]"
        and now = 3000 and ?t0.0 = 1000 and apiCall' = "getProducts net_down []"]
    by simp
qed

end
